theory Spec2Isabelle
  imports Complex_Main
begin

section \<open>JavaScript numbers\<close>

text \<open>
  Every numeric field of the whiteboard is a JavaScript \<open>number\<close>. The model keeps the
  finite values as exact reals (rounding and overflow of the binary format are idealised
  away) and keeps the three non-finite values, because they are what the program gets
  where a real-number model would have to invent a result: \<open>100 / 0\<close> is \<open>Infinity\<close>,
  \<open>0 * Infinity\<close> is \<open>NaN\<close>, and every comparison with \<open>NaN\<close> is false. Zero is
  unsigned: \<open>-0\<close> is identified with \<open>+0\<close>.
\<close>

datatype number = Fin real | PInf | NInf | NaN

instantiation number :: "{plus, minus, uminus, times, inverse, abs, ord}"
begin

fun plus_number :: "number \<Rightarrow> number \<Rightarrow> number" where
  "Fin a + Fin b = Fin (a + b)"
| "NaN + _ = NaN"
| "_ + NaN = NaN"
| "PInf + NInf = NaN"
| "NInf + PInf = NaN"
| "PInf + _ = PInf"
| "_ + PInf = PInf"
| "NInf + _ = NInf"
| "_ + NInf = NInf"

fun uminus_number :: "number \<Rightarrow> number" where
  "- Fin a = Fin (- a)"
| "- PInf = NInf"
| "- NInf = PInf"
| "- NaN = NaN"

definition minus_number :: "number \<Rightarrow> number \<Rightarrow> number" where
  "a - b = a + (- b :: number)"

fun times_number :: "number \<Rightarrow> number \<Rightarrow> number" where
  "Fin a * Fin b = Fin (a * b)"
| "NaN * _ = NaN"
| "_ * NaN = NaN"
| "Fin a * PInf = (if a = 0 then NaN else if 0 < a then PInf else NInf)"
| "Fin a * NInf = (if a = 0 then NaN else if 0 < a then NInf else PInf)"
| "PInf * Fin b = (if b = 0 then NaN else if 0 < b then PInf else NInf)"
| "NInf * Fin b = (if b = 0 then NaN else if 0 < b then NInf else PInf)"
| "PInf * PInf = PInf"
| "PInf * NInf = NInf"
| "NInf * PInf = NInf"
| "NInf * NInf = PInf"

fun divide_number :: "number \<Rightarrow> number \<Rightarrow> number" where
  "divide (Fin a) (Fin b) =
     (if b \<noteq> 0 then Fin (a / b)
      else if a = 0 then NaN else if 0 < a then PInf else NInf)"
| "divide NaN _ = NaN"
| "divide _ NaN = NaN"
| "divide (Fin a) PInf = Fin 0"
| "divide (Fin a) NInf = Fin 0"
| "divide PInf (Fin b) = (if 0 \<le> b then PInf else NInf)"
| "divide NInf (Fin b) = (if 0 \<le> b then NInf else PInf)"
| "divide PInf PInf = NaN"
| "divide PInf NInf = NaN"
| "divide NInf PInf = NaN"
| "divide NInf NInf = NaN"

definition inverse_number :: "number \<Rightarrow> number" where
  "inverse_number a = divide (Fin 1) a"

fun abs_number :: "number \<Rightarrow> number" where
  "\<bar>Fin a\<bar> = Fin \<bar>a\<bar>"
| "\<bar>PInf\<bar> = PInf"
| "\<bar>NInf\<bar> = PInf"
| "\<bar>NaN\<bar> = NaN"

fun less_number :: "number \<Rightarrow> number \<Rightarrow> bool" where
  "Fin a < Fin b \<longleftrightarrow> a < b"
| "NaN < _ \<longleftrightarrow> False"
| "_ < NaN \<longleftrightarrow> False"
| "_ < NInf \<longleftrightarrow> False"
| "PInf < _ \<longleftrightarrow> False"
| "NInf < _ \<longleftrightarrow> True"
| "_ < PInf \<longleftrightarrow> True"

fun less_eq_number :: "number \<Rightarrow> number \<Rightarrow> bool" where
  "Fin a \<le> Fin b \<longleftrightarrow> a \<le> b"
| "NaN \<le> _ \<longleftrightarrow> False"
| "_ \<le> NaN \<longleftrightarrow> False"
| "NInf \<le> _ \<longleftrightarrow> True"
| "_ \<le> PInf \<longleftrightarrow> True"
| "_ \<le> NInf \<longleftrightarrow> False"
| "PInf \<le> _ \<longleftrightarrow> False"

instance ..

end

text \<open>
  \<open>a > b\<close> and \<open>a >= b\<close> of the source are \<open>b < a\<close> and \<open>b \<le> a\<close>, which is also how
  HOL reads \<open>>\<close> and \<open>\<ge>\<close>. \<open>!(a < b)\<close> is not \<open>a >= b\<close>: both are false on \<open>NaN\<close>.
\<close>

text \<open>\<open>v || 0\<close> on a number: \<open>0\<close> and \<open>NaN\<close> are falsy.\<close>

definition or_zero :: "number \<Rightarrow> number" where
  "or_zero v = (if v = Fin 0 \<or> v = NaN then Fin 0 else v)"

fun Math_min :: "number \<Rightarrow> number \<Rightarrow> number" where
  "Math_min NaN _ = NaN"
| "Math_min _ NaN = NaN"
| "Math_min a b = (if a \<le> b then a else b)"

fun Math_max :: "number \<Rightarrow> number \<Rightarrow> number" where
  "Math_max NaN _ = NaN"
| "Math_max _ NaN = NaN"
| "Math_max a b = (if a \<le> b then b else a)"

fun Math_sqrt :: "number \<Rightarrow> number" where
  "Math_sqrt (Fin a) = (if a < 0 then NaN else Fin (sqrt a))"
| "Math_sqrt PInf = PInf"
| "Math_sqrt NInf = NaN"
| "Math_sqrt NaN = NaN"

fun Math_cos :: "number \<Rightarrow> number" where
  "Math_cos (Fin a) = Fin (cos a)"
| "Math_cos _ = NaN"

fun Math_sin :: "number \<Rightarrow> number" where
  "Math_sin (Fin a) = Fin (sin a)"
| "Math_sin _ = NaN"

text \<open>The angle of the point \<open>(x, y)\<close> in \<open>(-\<pi>, \<pi>]\<close>, with angle \<open>0\<close> at the origin.\<close>

definition atan2_real :: "real \<Rightarrow> real \<Rightarrow> real" where
  "atan2_real b a =
     (if 0 < a then arctan (b / a)
      else if a < 0 then (if 0 \<le> b then arctan (b / a) + pi else arctan (b / a) - pi)
      else if 0 < b then pi / 2 else if b < 0 then - (pi / 2) else 0)"

fun Math_atan2 :: "number \<Rightarrow> number \<Rightarrow> number" where
  "Math_atan2 (Fin b) (Fin a) = Fin (atan2_real b a)"
| "Math_atan2 NaN _ = NaN"
| "Math_atan2 _ NaN = NaN"
| "Math_atan2 (Fin b) PInf = Fin 0"
| "Math_atan2 (Fin b) NInf = Fin (if 0 \<le> b then pi else - pi)"
| "Math_atan2 PInf (Fin a) = Fin (pi / 2)"
| "Math_atan2 NInf (Fin a) = Fin (- (pi / 2))"
| "Math_atan2 PInf PInf = Fin (pi / 4)"
| "Math_atan2 PInf NInf = Fin (3 * pi / 4)"
| "Math_atan2 NInf PInf = Fin (- (pi / 4))"
| "Math_atan2 NInf NInf = Fin (- (3 * pi / 4))"

section \<open>Data model (\<open>types/whiteboard.types.ts\<close>)\<close>

text \<open>
  TypeScript types are structural: an element can be passed where a
  \<open>{x, y, width, height}\<close> is expected, and the drag snapshot of an element is its
  \<open>{x, y, width, height, rotation}\<close>. Record extension gives the same sharing of field
  names: \<open>Point\<close>, then \<open>Box\<close> (a \<open>DirtyRegion\<close>, the drag-selection rectangle, the
  \<open>startBounds\<close> parameter of \<open>performResize\<close>), then \<open>RotatedBox\<close> (an entry of
  \<open>elementStartBounds\<close>), then the element itself.
\<close>

datatype ToolType =
  Tool_select | Tool_rectangle | Tool_ellipse | Tool_line | Tool_arrow | Tool_pen
| Tool_text | Tool_eraser

datatype ElementType = Rectangle | Ellipse | Line | Arrow | Freedraw | Text

datatype FillStyle = Solid | Hachure | CrossHatch | Dots

datatype TextAlign = AlignLeft | AlignCenter | AlignRight

datatype VerticalAlign = AlignTop | AlignMiddle | AlignBottom

record ToolOptions =
  strokeColor :: string
  fillColor :: string
  strokeWidth :: number
  opacity :: number

record ElementStyle = ToolOptions +
  roughness :: "number option"
  fillStyle :: "FillStyle option"

record Point =
  x :: number
  y :: number

record Box = Point +
  width :: number
  height :: number

record RotatedBox = Box +
  rotation :: number

text \<open>
  The fields of \<open>BaseElement\<close>, and the fields of the variants as optional fields: an
  element is a JavaScript object, \<open>hitTestElement\<close> asks \<open>'startX' in element\<close>, and
  \<open>{...element, ...updates}\<close> can give any element any field. \<open>id\<close>, \<open>type\<close> and
  \<open>text\<close> carry a suffix, the plain names being taken in HOL.
\<close>

record WhiteboardElement = RotatedBox +
  id_el :: string
  type_el :: ElementType
  zIndex :: number
  style :: ElementStyle
  locked :: bool
  isDeleted :: bool
  startX :: "number option"
  startY :: "number option"
  endX :: "number option"
  endY :: "number option"
  arrowHeadSize :: "number option"
  points :: "(number \<times> number) list option"
  pressures :: "number list option"
  text_el :: "string option"
  fontSize :: "number option"
  fontFamily :: "string option"
  textAlign :: "TextAlign option"
  verticalAlign :: "VerticalAlign option"

text \<open>
  \<open>Partial<WhiteboardElement>\<close>: every field optional, \<open>None\<close> for a field the object
  literal does not have.
\<close>

record ElementUpdates =
  upd_x :: "number option"
  upd_y :: "number option"
  upd_width :: "number option"
  upd_height :: "number option"
  upd_rotation :: "number option"
  upd_id :: "string option"
  upd_type :: "ElementType option"
  upd_zIndex :: "number option"
  upd_style :: "ElementStyle option"
  upd_locked :: "bool option"
  upd_isDeleted :: "bool option"
  upd_startX :: "number option"
  upd_startY :: "number option"
  upd_endX :: "number option"
  upd_endY :: "number option"
  upd_arrowHeadSize :: "number option"
  upd_points :: "(number \<times> number) list option"
  upd_pressures :: "number list option"
  upd_text :: "string option"
  upd_fontSize :: "number option"
  upd_fontFamily :: "string option"
  upd_textAlign :: "TextAlign option"
  upd_verticalAlign :: "VerticalAlign option"

record ViewportTransform =
  zoom :: number
  panX :: number
  panY :: number

record Bounds =
  minX :: number
  minY :: number
  maxX :: number
  maxY :: number
  width_Bounds :: number
  height_Bounds :: number

text \<open>
  A \<open>Set<string>\<close> iterates in insertion order, and the select tool reads
  \<open>Array.from(selectedElementIds)[0]\<close>: the set is the list of its members in
  insertion order. The \<open>Map\<close> of elements is only read and written by key.
\<close>

type_synonym string_Set = "string list"

definition Set_add :: "string_Set \<Rightarrow> string \<Rightarrow> string_Set" where
  "Set_add s a = (if a \<in> set s then s else s @ [a])"

definition new_Set :: "string list \<Rightarrow> string_Set" where
  "new_Set ids = foldl Set_add [] ids"

record AppState =
  viewport :: ViewportTransform
  elements :: "string \<rightharpoonup> WhiteboardElement"
  elementOrder :: "string list"
  activeTool :: ToolType
  toolOptions :: ToolOptions
  selectedElementIds :: string_Set
  hoveredElementId :: "string option"
  isDragging :: bool
  isDrawing :: bool
  isPanning :: bool
  gridEnabled :: bool
  gridSize :: number
  canUndo :: bool
  canRedo :: bool

section \<open>Scene store (\<open>stores/whiteboardStore.ts\<close>)\<close>

text \<open>
  Each action is \<open>set(f)\<close> of the store: \<open>f\<close> gets the current state and returns the
  fields to replace, or the state itself when nothing changes. The model of an action is
  the function from the state before to the state after.
\<close>

definition DEFAULT_VIEWPORT :: ViewportTransform where
  "DEFAULT_VIEWPORT = \<lparr>zoom = Fin 1, panX = Fin 0, panY = Fin 0\<rparr>"

definition DEFAULT_TOOL_OPTIONS :: ToolOptions where
  "DEFAULT_TOOL_OPTIONS =
     \<lparr>strokeColor = ''#000000'', fillColor = ''transparent'',
      strokeWidth = Fin 2, opacity = Fin 1\<rparr>"

definition initialState :: AppState where
  "initialState =
     \<lparr>viewport = DEFAULT_VIEWPORT, elements = Map.empty, elementOrder = [],
      activeTool = Tool_select, toolOptions = DEFAULT_TOOL_OPTIONS,
      selectedElementIds = [], hoveredElementId = None,
      isDragging = False, isDrawing = False, isPanning = False,
      gridEnabled = False, gridSize = Fin 15, canUndo = False, canRedo = False\<rparr>"

definition setZoom :: "number \<Rightarrow> AppState \<Rightarrow> AppState" where
  "setZoom z state =
     state\<lparr>viewport := (viewport state)\<lparr>zoom := Math_max (Fin (1 / 10)) (Math_min (Fin 10) z)\<rparr>\<rparr>"

definition setPan :: "number \<Rightarrow> number \<Rightarrow> AppState \<Rightarrow> AppState" where
  "setPan px py state = state\<lparr>viewport := (viewport state)\<lparr>panX := px, panY := py\<rparr>\<rparr>"

definition resetViewport :: "AppState \<Rightarrow> AppState" where
  "resetViewport state = state\<lparr>viewport := DEFAULT_VIEWPORT\<rparr>"

definition addElement :: "WhiteboardElement \<Rightarrow> AppState \<Rightarrow> AppState" where
  "addElement element state =
     (let newElements = (elements state)(id_el element \<mapsto> element)
      in state\<lparr>elements := newElements,
               elementOrder := elementOrder state @ [id_el element]\<rparr>)"

text \<open>\<open>{...element, ...updates}\<close>: a field of \<open>updates\<close> wins where it is there.\<close>

definition spread :: "'a \<Rightarrow> 'a option \<Rightarrow> 'a" where
  "spread old new = (case new of None \<Rightarrow> old | Some v \<Rightarrow> v)"

definition spread_opt :: "'a option \<Rightarrow> 'a option \<Rightarrow> 'a option" where
  "spread_opt old new = (case new of None \<Rightarrow> old | Some v \<Rightarrow> Some v)"

definition applyUpdates :: "WhiteboardElement \<Rightarrow> ElementUpdates \<Rightarrow> WhiteboardElement" where
  "applyUpdates element updates =
     \<lparr>x = spread (x element) (upd_x updates),
      y = spread (y element) (upd_y updates),
      width = spread (width element) (upd_width updates),
      height = spread (height element) (upd_height updates),
      rotation = spread (rotation element) (upd_rotation updates),
      id_el = spread (id_el element) (upd_id updates),
      type_el = spread (type_el element) (upd_type updates),
      zIndex = spread (zIndex element) (upd_zIndex updates),
      style = spread (style element) (upd_style updates),
      locked = spread (locked element) (upd_locked updates),
      isDeleted = spread (isDeleted element) (upd_isDeleted updates),
      startX = spread_opt (startX element) (upd_startX updates),
      startY = spread_opt (startY element) (upd_startY updates),
      endX = spread_opt (endX element) (upd_endX updates),
      endY = spread_opt (endY element) (upd_endY updates),
      arrowHeadSize = spread_opt (arrowHeadSize element) (upd_arrowHeadSize updates),
      points = spread_opt (points element) (upd_points updates),
      pressures = spread_opt (pressures element) (upd_pressures updates),
      text_el = spread_opt (text_el element) (upd_text updates),
      fontSize = spread_opt (fontSize element) (upd_fontSize updates),
      fontFamily = spread_opt (fontFamily element) (upd_fontFamily updates),
      textAlign = spread_opt (textAlign element) (upd_textAlign updates),
      verticalAlign = spread_opt (verticalAlign element) (upd_verticalAlign updates)\<rparr>"

definition no_updates :: ElementUpdates where
  "no_updates =
     \<lparr>upd_x = None, upd_y = None, upd_width = None, upd_height = None,
      upd_rotation = None, upd_id = None, upd_type = None, upd_zIndex = None,
      upd_style = None, upd_locked = None, upd_isDeleted = None,
      upd_startX = None, upd_startY = None, upd_endX = None, upd_endY = None,
      upd_arrowHeadSize = None, upd_points = None, upd_pressures = None,
      upd_text = None, upd_fontSize = None, upd_fontFamily = None,
      upd_textAlign = None, upd_verticalAlign = None\<rparr>"

definition updateElement :: "string \<Rightarrow> ElementUpdates \<Rightarrow> AppState \<Rightarrow> AppState" where
  "updateElement eid updates state =
     (case elements state eid of
        None \<Rightarrow> state
      | Some element \<Rightarrow>
          (let newElements = (elements state)(eid \<mapsto> applyUpdates element updates)
           in state\<lparr>elements := newElements\<rparr>))"

definition deleteElement :: "string \<Rightarrow> AppState \<Rightarrow> AppState" where
  "deleteElement eid state =
     (let newElements = (elements state)(eid := None)
      in state\<lparr>elements := newElements,
               elementOrder := filter (\<lambda>e. e \<noteq> eid) (elementOrder state),
               selectedElementIds :=
                 new_Set (filter (\<lambda>e. e \<noteq> eid) (selectedElementIds state))\<rparr>)"

definition deleteElements :: "string list \<Rightarrow> AppState \<Rightarrow> AppState" where
  "deleteElements ids state =
     (let newElements = fold (\<lambda>i m. m(i := None)) ids (elements state);
          deletedSet = new_Set ids
      in state\<lparr>elements := newElements,
               elementOrder := filter (\<lambda>i. i \<notin> set deletedSet) (elementOrder state),
               selectedElementIds :=
                 new_Set (filter (\<lambda>i. i \<notin> set deletedSet) (selectedElementIds state))\<rparr>)"

definition clearElements :: "AppState \<Rightarrow> AppState" where
  "clearElements state =
     state\<lparr>elements := Map.empty, elementOrder := [], selectedElementIds := []\<rparr>"

definition selectElement :: "string \<Rightarrow> AppState \<Rightarrow> AppState" where
  "selectElement eid state = state\<lparr>selectedElementIds := new_Set [eid]\<rparr>"

definition selectElements :: "string list \<Rightarrow> AppState \<Rightarrow> AppState" where
  "selectElements ids state = state\<lparr>selectedElementIds := new_Set ids\<rparr>"

definition addToSelection :: "string \<Rightarrow> AppState \<Rightarrow> AppState" where
  "addToSelection eid state =
     state\<lparr>selectedElementIds := Set_add (new_Set (selectedElementIds state)) eid\<rparr>"

definition clearSelection :: "AppState \<Rightarrow> AppState" where
  "clearSelection state = state\<lparr>selectedElementIds := []\<rparr>"

definition setHoveredElement :: "string option \<Rightarrow> AppState \<Rightarrow> AppState" where
  "setHoveredElement eid state = state\<lparr>hoveredElementId := eid\<rparr>"







section \<open>Viewport conversions (\<open>lib/canvas-utils.ts\<close>)\<close>

definition screenToWorld :: "number \<Rightarrow> number \<Rightarrow> ViewportTransform \<Rightarrow> Point" where
  "screenToWorld screenX screenY vp =
     \<lparr>x = (screenX - panX vp) / zoom vp, y = (screenY - panY vp) / zoom vp\<rparr>"

definition worldToScreen :: "number \<Rightarrow> number \<Rightarrow> ViewportTransform \<Rightarrow> Point" where
  "worldToScreen worldX worldY vp =
     \<lparr>x = worldX * zoom vp + panX vp, y = worldY * zoom vp + panY vp\<rparr>"

definition rotatePoint :: "Point \<Rightarrow> Point \<Rightarrow> number \<Rightarrow> Point" where
  "rotatePoint point center angle =
     (let c = Math_cos angle; s = Math_sin angle;
          dx = x point - x center; dy = y point - y center
      in \<lparr>x = dx * c - dy * s + x center, y = dx * s + dy * c + y center\<rparr>)"

section \<open>Geometry kernel (\<open>utils/geometry.ts\<close>)\<close>

text \<open>
  A parameter with a default value (\<open>padding = 0\<close>, \<open>threshold = 5\<close>) is an explicit
  argument here; the caller that leaves it out passes the default.
\<close>

definition getElementBounds :: "WhiteboardElement \<Rightarrow> Bounds" where
  "getElementBounds element =
     \<lparr>minX = x element, minY = y element,
      maxX = x element + width element, maxY = y element + height element,
      width_Bounds = width element, height_Bounds = height element\<rparr>"

definition getElementCenter :: "WhiteboardElement \<Rightarrow> Point" where
  "getElementCenter element =
     \<lparr>x = x element + width element / Fin 2, y = y element + height element / Fin 2\<rparr>"

definition isPointInBounds :: "Point \<Rightarrow> Bounds \<Rightarrow> number \<Rightarrow> bool" where
  "isPointInBounds point bounds padding \<longleftrightarrow>
     x point \<ge> minX bounds - padding \<and>
     x point \<le> maxX bounds + padding \<and>
     y point \<ge> minY bounds - padding \<and>
     y point \<le> maxY bounds + padding"

definition isPointInRectangle :: "Point \<Rightarrow> WhiteboardElement \<Rightarrow> number \<Rightarrow> bool" where
  "isPointInRectangle point element padding =
     (if rotation element = Fin 0 then
        x point \<ge> x element - padding \<and>
        x point \<le> x element + width element + padding \<and>
        y point \<ge> y element - padding \<and>
        y point \<le> y element + height element + padding
      else
        (let centerX = x element + width element / Fin 2;
             centerY = y element + height element / Fin 2;
             c = Math_cos (- rotation element);
             s = Math_sin (- rotation element);
             dx = x point - centerX;
             dy = y point - centerY;
             localX = dx * c - dy * s + centerX;
             localY = dx * s + dy * c + centerY
         in localX \<ge> x element - padding \<and>
            localX \<le> x element + width element + padding \<and>
            localY \<ge> y element - padding \<and>
            localY \<le> y element + height element + padding))"

definition isPointInEllipse :: "Point \<Rightarrow> WhiteboardElement \<Rightarrow> number \<Rightarrow> bool" where
  "isPointInEllipse point element padding =
     (let centerX = x element + width element / Fin 2;
          centerY = y element + height element / Fin 2;
          radiusX = width element / Fin 2 + padding;
          radiusY = height element / Fin 2 + padding;
          dx = x point - centerX;
          dy = y point - centerY
      in (dx * dx) / (radiusX * radiusX) + (dy * dy) / (radiusY * radiusY) \<le> Fin 1)"

definition distanceToLine :: "Point \<Rightarrow> Point \<Rightarrow> Point \<Rightarrow> number" where
  "distanceToLine point lineStart lineEnd =
     (let A = x point - x lineStart;
          B = y point - y lineStart;
          C = x lineEnd - x lineStart;
          D = y lineEnd - y lineStart;
          dot = A * C + B * D;
          lenSq = C * C + D * D;
          param = (if lenSq \<noteq> Fin 0 then dot / lenSq else - Fin 1);
          (xx, yy) =
            (if param < Fin 0 then (x lineStart, y lineStart)
             else if Fin 1 < param then (x lineEnd, y lineEnd)
             else (x lineStart + param * C, y lineStart + param * D));
          dx = x point - xx;
          dy = y point - yy
      in Math_sqrt (dx * dx + dy * dy))"

definition isPointNearLine :: "Point \<Rightarrow> Point \<Rightarrow> Point \<Rightarrow> number \<Rightarrow> bool" where
  "isPointNearLine point lineStart lineEnd thresh \<longleftrightarrow>
     distanceToLine point lineStart lineEnd \<le> thresh"

text \<open>The loop of \<open>isPointInFreedrawPath\<close> over the consecutive pairs of points.\<close>

fun freedrawSegmentHit :: "Point \<Rightarrow> (number \<times> number) list \<Rightarrow> number \<Rightarrow> bool" where
  "freedrawSegmentHit point (p # q # rest) thresh =
     (if isPointNearLine point \<lparr>x = fst p, y = snd p\<rparr> \<lparr>x = fst q, y = snd q\<rparr> thresh
      then True
      else freedrawSegmentHit point (q # rest) thresh)"
| "freedrawSegmentHit point _ thresh = False"

text \<open>\<open>isPointInFreedrawPath\<close> reads \<open>element.points\<close> only; it takes the points.\<close>

definition isPointInFreedrawPath :: "Point \<Rightarrow> (number \<times> number) list \<Rightarrow> number \<Rightarrow> bool" where
  "isPointInFreedrawPath point pts thresh =
     (if length pts < 2 then False else freedrawSegmentHit point pts thresh)"

definition hitTestElement :: "Point \<Rightarrow> WhiteboardElement \<Rightarrow> number \<Rightarrow> bool" where
  "hitTestElement point element thresh =
     (let bounds = getElementBounds element
      in if \<not> isPointInBounds point bounds thresh then False
         else
           (case type_el element of
              Rectangle \<Rightarrow> isPointInRectangle point element thresh
            | Ellipse \<Rightarrow> isPointInEllipse point element thresh
            | Line \<Rightarrow>
                (case (startX element, startY element, endX element, endY element) of
                   (Some sx, Some sy, Some ex, Some ey) \<Rightarrow>
                     isPointNearLine point \<lparr>x = sx, y = sy\<rparr> \<lparr>x = ex, y = ey\<rparr> thresh
                 | _ \<Rightarrow> False)
            | Arrow \<Rightarrow>
                (case (startX element, startY element, endX element, endY element) of
                   (Some sx, Some sy, Some ex, Some ey) \<Rightarrow>
                     isPointNearLine point \<lparr>x = sx, y = sy\<rparr> \<lparr>x = ex, y = ey\<rparr> thresh
                 | _ \<Rightarrow> False)
            | Freedraw \<Rightarrow>
                (case points element of
                   Some pts \<Rightarrow> isPointInFreedrawPath point pts thresh
                 | None \<Rightarrow> False)
            | Text \<Rightarrow> isPointInRectangle point element (Fin 0)))"

section \<open>Selection tool (\<open>tools/SelectTool.ts\<close>)\<close>

text \<open>
  The private fields of the tool are a record; a method that assigns to them returns the
  tool after the call, and a method that calls actions of the store returns the store
  after the call as well. \<open>null\<close> is \<open>None\<close>. The tool also writes
  \<open>canvas.style.cursor\<close>; nothing reads the cursor back, and it is not part of the
  model (\<open>getCursorForHandle\<close> serves the cursor only).
\<close>

datatype HandleType =
  H_nw | H_n | H_ne | H_e | H_se | H_s | H_sw | H_w | H_rotation

datatype TransformMode = Move | Resize | Rotate | DragSelect

record SelectTool =
  threshold :: number
  transformMode :: "TransformMode option"
  activeHandle :: "HandleType option"
  dragStartPoint :: "Point option"
  dragCurrentPoint :: "Point option"
  elementStartBounds :: "string \<rightharpoonup> RotatedBox"

text \<open>What the handlers read of the pointer event and of the canvas.\<close>

record PointerEvent =
  clientX :: number
  clientY :: number
  shiftKey :: bool

record HTMLCanvasElement =
  rect_left :: number
  rect_top :: number

definition new_SelectTool :: "number option \<Rightarrow> SelectTool" where
  "new_SelectTool threshold_option =
     \<lparr>threshold = (case threshold_option of None \<Rightarrow> Fin 5 | Some t \<Rightarrow> t),
      transformMode = None, activeHandle = None,
      dragStartPoint = None, dragCurrentPoint = None,
      elementStartBounds = Map.empty\<rparr>"

text \<open>The loop of \<open>findElementAtPoint\<close>, over the ids from the top of the z-order down.\<close>

fun findElementAtPoint_loop ::
  "number \<Rightarrow> Point \<Rightarrow> (string \<rightharpoonup> WhiteboardElement) \<Rightarrow> string list \<Rightarrow> WhiteboardElement option"
where
  "findElementAtPoint_loop thresh point elems [] = None"
| "findElementAtPoint_loop thresh point elems (elementId # below) =
     (case elems elementId of
        None \<Rightarrow> findElementAtPoint_loop thresh point elems below
      | Some element \<Rightarrow>
          if isDeleted element then findElementAtPoint_loop thresh point elems below
          else if locked element then findElementAtPoint_loop thresh point elems below
          else if hitTestElement point element thresh then Some element
          else findElementAtPoint_loop thresh point elems below)"

definition findElementAtPoint ::
  "SelectTool \<Rightarrow> Point \<Rightarrow> (string \<rightharpoonup> WhiteboardElement) \<Rightarrow> string list \<Rightarrow> WhiteboardElement option"
where
  "findElementAtPoint tool point elems order =
     findElementAtPoint_loop (threshold tool) point elems (rev order)"

text \<open>The \<open>Map\<close> of handle positions, as the list of its entries in insertion order.\<close>

definition getHandlePositions :: "WhiteboardElement \<Rightarrow> (HandleType \<times> Point) list" where
  "getHandlePositions element =
     (let ex = x element; ey = y element; w = width element; h = height element;
          handles =
            [(H_nw, \<lparr>x = ex, y = ey\<rparr>),
             (H_n, \<lparr>x = ex + w / Fin 2, y = ey\<rparr>),
             (H_ne, \<lparr>x = ex + w, y = ey\<rparr>),
             (H_e, \<lparr>x = ex + w, y = ey + h / Fin 2\<rparr>),
             (H_se, \<lparr>x = ex + w, y = ey + h\<rparr>),
             (H_s, \<lparr>x = ex + w / Fin 2, y = ey + h\<rparr>),
             (H_sw, \<lparr>x = ex, y = ey + h\<rparr>),
             (H_w, \<lparr>x = ex, y = ey + h / Fin 2\<rparr>),
             (H_rotation, \<lparr>x = ex + w / Fin 2, y = ey - Fin 30\<rparr>)]
      in if rotation element \<noteq> NaN \<and> rotation element \<noteq> Fin 0
         then (let center = getElementCenter element
               in map (\<lambda>(handleType, pos). (handleType, rotatePoint pos center (rotation element)))
                    handles)
         else handles)"

definition findHandleAtPoint :: "Point \<Rightarrow> WhiteboardElement \<Rightarrow> number \<Rightarrow> HandleType option" where
  "findHandleAtPoint point element handleSize =
     (let handles = getHandlePositions element;
          thresh = handleSize + Fin 2
      in map_option fst
           (find (\<lambda>(handleType, handlePos).
                    (let dx = x point - x handlePos;
                         dy = y point - y handlePos;
                         distance = Math_sqrt (dx * dx + dy * dy)
                     in distance \<le> thresh))
              handles))"

definition findElementsIntersectingRect ::
  "Point \<Rightarrow> Point \<Rightarrow> (string \<rightharpoonup> WhiteboardElement) \<Rightarrow> string list \<Rightarrow> string list"
where
  "findElementsIntersectingRect rectStart rectEnd elems order =
     (let minX' = Math_min (x rectStart) (x rectEnd);
          minY' = Math_min (y rectStart) (y rectEnd);
          maxX' = Math_max (x rectStart) (x rectEnd);
          maxY' = Math_max (y rectStart) (y rectEnd)
      in filter
           (\<lambda>elementId.
              case elems elementId of
                None \<Rightarrow> False
              | Some element \<Rightarrow>
                  if isDeleted element \<or> locked element then False
                  else
                    (let elemMinX = x element;
                         elemMinY = y element;
                         elemMaxX = x element + width element;
                         elemMaxY = y element + height element
                     in \<not> (elemMaxX < minX' \<or> maxX' < elemMinX \<or>
                            elemMaxY < minY' \<or> maxY' < elemMinY)))
           order)"

definition snapshotBounds :: "WhiteboardElement \<Rightarrow> RotatedBox" where
  "snapshotBounds element =
     \<lparr>x = x element, y = y element, width = width element, height = height element,
      rotation = or_zero (rotation element)\<rparr>"

definition onPointerDown ::
  "PointerEvent \<Rightarrow> HTMLCanvasElement \<Rightarrow> ViewportTransform \<Rightarrow> SelectTool \<times> AppState
     \<Rightarrow> SelectTool \<times> AppState"
where
  "onPointerDown event canvas vp ts =
     (let tool = fst ts; state = snd ts;
          screenX = clientX event - rect_left canvas;
          screenY = clientY event - rect_top canvas;
          worldPoint = screenToWorld screenX screenY vp;
          elems = elements state;
          order = elementOrder state;
          sel = selectedElementIds state;
          handleHit =
            (case sel of
               [selectedId] \<Rightarrow>
                 (case elems selectedId of
                    Some selectedElement \<Rightarrow>
                      (case findHandleAtPoint worldPoint selectedElement (Fin 8) of
                         Some handle \<Rightarrow> Some (selectedId, selectedElement, handle)
                       | None \<Rightarrow> None)
                  | None \<Rightarrow> None)
             | _ \<Rightarrow> None)
      in case handleHit of
           Some (selectedId, selectedElement, handle) \<Rightarrow>
             (tool\<lparr>activeHandle := Some handle,
                   dragStartPoint := Some worldPoint,
                   transformMode := Some (if handle = H_rotation then Rotate else Resize),
                   elementStartBounds :=
                     (elementStartBounds tool)(selectedId \<mapsto> snapshotBounds selectedElement)\<rparr>,
              state)
         | None \<Rightarrow>
             (case findElementAtPoint tool worldPoint elems order of
                Some clickedElement \<Rightarrow>
                  (let state' =
                         (if shiftKey event then
                            (if id_el clickedElement \<in> set sel
                             then selectElements
                                    (filter (\<lambda>i. i \<noteq> id_el clickedElement) (new_Set sel)) state
                             else addToSelection (id_el clickedElement) state)
                          else
                            (if id_el clickedElement \<notin> set sel
                             then selectElement (id_el clickedElement) state
                             else state))
                   in (tool\<lparr>transformMode := Some Move,
                            dragStartPoint := Some worldPoint,
                            elementStartBounds :=
                              fold (\<lambda>i m. case elems i of
                                             Some element \<Rightarrow> m(i \<mapsto> snapshotBounds element)
                                           | None \<Rightarrow> m)
                                sel (elementStartBounds tool)\<rparr>,
                       state'))
              | None \<Rightarrow>
                  (tool\<lparr>transformMode := Some DragSelect,
                        dragStartPoint := Some worldPoint,
                        dragCurrentPoint := Some worldPoint,
                        elementStartBounds := Map.empty\<rparr>,
                   if \<not> shiftKey event then clearSelection state else state)))"

definition performResize ::
  "string \<Rightarrow> 'a Box_scheme \<Rightarrow> number \<Rightarrow> number \<Rightarrow> HandleType option \<Rightarrow> bool \<Rightarrow> AppState
     \<Rightarrow> AppState"
where
  "performResize elementId startBounds dx dy handle maintainAspectRatio state =
     (let newX = x startBounds;
          newY = y startBounds;
          newWidth = width startBounds;
          newHeight = height startBounds;
          (newX, newY, newWidth, newHeight) =
            (case handle of
               Some H_nw \<Rightarrow>
                 (x startBounds + dx, y startBounds + dy,
                  width startBounds - dx, height startBounds - dy)
             | Some H_n \<Rightarrow> (newX, y startBounds + dy, newWidth, height startBounds - dy)
             | Some H_ne \<Rightarrow>
                 (newX, y startBounds + dy, width startBounds + dx, height startBounds - dy)
             | Some H_e \<Rightarrow> (newX, newY, width startBounds + dx, newHeight)
             | Some H_se \<Rightarrow> (newX, newY, width startBounds + dx, height startBounds + dy)
             | Some H_s \<Rightarrow> (newX, newY, newWidth, height startBounds + dy)
             | Some H_sw \<Rightarrow>
                 (x startBounds + dx, newY, width startBounds - dx, height startBounds + dy)
             | Some H_w \<Rightarrow> (x startBounds + dx, newY, width startBounds - dx, newHeight)
             | _ \<Rightarrow> (newX, newY, newWidth, newHeight));
          (newX, newY, newWidth, newHeight) =
            (if maintainAspectRatio then
               (let aspectRatio = width startBounds / height startBounds
                in if \<bar>newHeight - height startBounds\<bar> < \<bar>newWidth - width startBounds\<bar>
                   then
                     (let newHeight = newWidth / aspectRatio;
                          newY = (if handle = Some H_nw \<or> handle = Some H_n \<or> handle = Some H_ne
                                  then y startBounds + height startBounds - newHeight
                                  else newY)
                      in (newX, newY, newWidth, newHeight))
                   else
                     (let newWidth = newHeight * aspectRatio;
                          newX = (if handle = Some H_nw \<or> handle = Some H_w \<or> handle = Some H_sw
                                  then x startBounds + width startBounds - newWidth
                                  else newX)
                      in (newX, newY, newWidth, newHeight)))
             else (newX, newY, newWidth, newHeight));
          newWidth = (if newWidth < Fin 1 then Fin 1 else newWidth);
          newHeight = (if newHeight < Fin 1 then Fin 1 else newHeight)
      in updateElement elementId
           (no_updates\<lparr>upd_x := Some newX, upd_y := Some newY,
                       upd_width := Some newWidth, upd_height := Some newHeight\<rparr>)
           state)"

definition onPointerMove ::
  "PointerEvent \<Rightarrow> HTMLCanvasElement \<Rightarrow> ViewportTransform \<Rightarrow> SelectTool \<times> AppState
     \<Rightarrow> SelectTool \<times> AppState"
where
  "onPointerMove event canvas vp ts =
     (let tool = fst ts; state = snd ts;
          screenX = clientX event - rect_left canvas;
          screenY = clientY event - rect_top canvas;
          worldPoint = screenToWorld screenX screenY vp;
          elems = elements state;
          order = elementOrder state;
          sel = selectedElementIds state
      in case (transformMode tool, dragStartPoint tool) of
           (Some mode, Some start) \<Rightarrow>
             (let dx = x worldPoint - x start;
                  dy = y worldPoint - y start
              in if mode = Move then
                   (tool,
                    fold (\<lambda>i st. case elementStartBounds tool i of
                                    Some startBounds \<Rightarrow>
                                      updateElement i
                                        (no_updates\<lparr>upd_x := Some (x startBounds + dx),
                                                    upd_y := Some (y startBounds + dy)\<rparr>)
                                        st
                                  | None \<Rightarrow> st)
                      sel state)
                 else if mode = Resize \<and> activeHandle tool \<noteq> None then
                   (case sel of
                      [] \<Rightarrow> (tool, state)
                    | selectedId # _ \<Rightarrow>
                        (case elementStartBounds tool selectedId of
                           Some startBounds \<Rightarrow>
                             (tool,
                              performResize selectedId startBounds dx dy (activeHandle tool)
                                (shiftKey event) state)
                         | None \<Rightarrow> (tool, state)))
                 else if mode = Rotate then
                   (case sel of
                      [] \<Rightarrow> (tool, state)
                    | selectedId # _ \<Rightarrow>
                        (case (elems selectedId, elementStartBounds tool selectedId) of
                           (Some element, Some startBounds) \<Rightarrow>
                             (let center = getElementCenter element;
                                  startAngle =
                                    Math_atan2 (y start - y center) (x start - x center);
                                  currentAngle =
                                    Math_atan2 (y worldPoint - y center) (x worldPoint - x center);
                                  deltaAngle = currentAngle - startAngle
                              in (tool,
                                  updateElement selectedId
                                    (no_updates\<lparr>upd_rotation :=
                                                   Some (rotation startBounds + deltaAngle)\<rparr>)
                                    state))
                         | _ \<Rightarrow> (tool, state)))
                 else if mode = DragSelect then
                   (tool\<lparr>dragCurrentPoint := Some worldPoint\<rparr>, state)
                 else (tool, state))
         | _ \<Rightarrow>
             (let handleHit =
                    (case sel of
                       [selectedId] \<Rightarrow>
                         (case elems selectedId of
                            Some selectedElement \<Rightarrow>
                              (case findHandleAtPoint worldPoint selectedElement (Fin 8) of
                                 Some handle \<Rightarrow> Some selectedId
                               | None \<Rightarrow> None)
                          | None \<Rightarrow> None)
                     | _ \<Rightarrow> None)
              in case handleHit of
                   Some selectedId \<Rightarrow> (tool, setHoveredElement (Some selectedId) state)
                 | None \<Rightarrow>
                     (let hoveredElement = findElementAtPoint tool worldPoint elems order
                      in (tool, setHoveredElement (map_option id_el hoveredElement) state))))"

definition onPointerUp ::
  "PointerEvent \<Rightarrow> HTMLCanvasElement \<Rightarrow> ViewportTransform \<Rightarrow> SelectTool \<times> AppState
     \<Rightarrow> SelectTool \<times> AppState"
where
  "onPointerUp event canvas vp ts =
     (let tool = fst ts; state = snd ts;
          state' =
            (case (transformMode tool, dragStartPoint tool, dragCurrentPoint tool) of
               (Some DragSelect, Some start, Some current) \<Rightarrow>
                 (let intersectingIds =
                        findElementsIntersectingRect start current
                          (elements state) (elementOrder state)
                  in if 0 < length intersectingIds then
                       (if shiftKey event
                        then selectElements
                               (foldl Set_add (new_Set (selectedElementIds state)) intersectingIds)
                               state
                        else selectElements intersectingIds state)
                     else state)
             | _ \<Rightarrow> state)
      in (tool\<lparr>transformMode := None, activeHandle := None,
               dragStartPoint := None, dragCurrentPoint := None,
               elementStartBounds := Map.empty\<rparr>,
          state'))"

definition reset :: "SelectTool \<Rightarrow> SelectTool" where
  "reset tool =
     tool\<lparr>transformMode := None, activeHandle := None,
          dragStartPoint := None, dragCurrentPoint := None,
          elementStartBounds := Map.empty\<rparr>"

definition getIsTransforming :: "SelectTool \<Rightarrow> bool" where
  "getIsTransforming tool \<longleftrightarrow> transformMode tool \<noteq> None"

definition getDragSelectionBox :: "SelectTool \<Rightarrow> Box option" where
  "getDragSelectionBox tool =
     (case (transformMode tool, dragStartPoint tool, dragCurrentPoint tool) of
        (Some DragSelect, Some start, Some current) \<Rightarrow>
          (let minX' = Math_min (x start) (x current);
               minY' = Math_min (y start) (y current);
               maxX' = Math_max (x start) (x current);
               maxY' = Math_max (y start) (y current)
           in Some \<lparr>x = minX', y = minY', width = maxX' - minX', height = maxY' - minY'\<rparr>)
      | _ \<Rightarrow> None)"

section \<open>Dirty rectangles (\<open>lib/dirty-rect.ts\<close>)\<close>

text \<open>
  A \<open>DirtyRegion\<close> is a \<open>Box\<close>. The manager is the record of its three fields, and
  a method that assigns to a field returns the manager after the call next to its result.
\<close>

type_synonym DirtyRegion = Box

record DirtyRectManager =
  dirtyRegions :: "DirtyRegion list"
  isDirty :: bool
  fullRedrawNeeded :: bool

definition new_DirtyRectManager :: DirtyRectManager where
  "new_DirtyRectManager = \<lparr>dirtyRegions = [], isDirty = False, fullRedrawNeeded = True\<rparr>"

definition markRegionDirty ::
  "number \<Rightarrow> number \<Rightarrow> number \<Rightarrow> number \<Rightarrow> DirtyRectManager \<Rightarrow> DirtyRectManager"
where
  "markRegionDirty rx ry rw rh m =
     m\<lparr>dirtyRegions := dirtyRegions m @ [\<lparr>x = rx, y = ry, width = rw, height = rh\<rparr>],
       isDirty := True\<rparr>"

definition markElementDirty ::
  "WhiteboardElement \<Rightarrow> number \<Rightarrow> DirtyRectManager \<Rightarrow> DirtyRectManager"
where
  "markElementDirty element padding m =
     (let bounds = getElementBounds element
      in markRegionDirty
           (minX bounds - padding)
           (minY bounds - padding)
           (maxX bounds - minX bounds + padding * Fin 2)
           (maxY bounds - minY bounds + padding * Fin 2)
           m)"

definition markFullRedraw :: "DirtyRectManager \<Rightarrow> DirtyRectManager" where
  "markFullRedraw m = m\<lparr>fullRedrawNeeded := True, isDirty := True\<rparr>"

definition needsRedraw :: "DirtyRectManager \<Rightarrow> bool" where
  "needsRedraw m \<longleftrightarrow> isDirty m \<or> fullRedrawNeeded m"

definition needsFullRedraw :: "DirtyRectManager \<Rightarrow> bool" where
  "needsFullRedraw m \<longleftrightarrow> fullRedrawNeeded m"

definition boundsIntersect ::
  "number \<Rightarrow> number \<Rightarrow> number \<Rightarrow> number \<Rightarrow> number \<Rightarrow> number \<Rightarrow> number \<Rightarrow> number \<Rightarrow> bool"
where
  "boundsIntersect x1 y1 w1 h1 x2 y2 w2 h2 \<longleftrightarrow>
     \<not> (x1 + w1 < x2 \<or> x2 + w2 < x1 \<or> y1 + h1 < y2 \<or> y2 + h2 < y1)"

definition regionsOverlap :: "DirtyRegion \<Rightarrow> DirtyRegion \<Rightarrow> bool" where
  "regionsOverlap a b \<longleftrightarrow>
     boundsIntersect (x a) (y a) (width a) (height a) (x b) (y b) (width b) (height b)"

text \<open>
  \<open>[...regions].sort((a, b) => a.x - b.x)\<close>: the sort is stable, and an element stays
  before another one unless the comparator is positive on the pair.
\<close>

fun insertByX :: "DirtyRegion \<Rightarrow> DirtyRegion list \<Rightarrow> DirtyRegion list" where
  "insertByX a [] = [a]"
| "insertByX a (b # bs) =
     (if Fin 0 < x a - x b then b # insertByX a bs else a # b # bs)"

definition sortByX :: "DirtyRegion list \<Rightarrow> DirtyRegion list" where
  "sortByX regions = foldr insertByX regions []"

text \<open>The loop of \<open>mergeRegions\<close> over \<open>sorted[1..]\<close>, with \<open>current\<close> and \<open>merged\<close>.\<close>

fun mergeLoop :: "DirtyRegion \<Rightarrow> DirtyRegion list \<Rightarrow> DirtyRegion list \<Rightarrow> DirtyRegion list" where
  "mergeLoop current [] merged = merged @ [current]"
| "mergeLoop current (next # rest) merged =
     (if regionsOverlap current next then
        (let minX' = Math_min (x current) (x next);
             minY' = Math_min (y current) (y next);
             maxX' = Math_max (x current + width current) (x next + width next);
             maxY' = Math_max (y current + height current) (y next + height next)
         in mergeLoop \<lparr>x = minX', y = minY', width = maxX' - minX', height = maxY' - minY'\<rparr>
              rest merged)
      else mergeLoop next rest (merged @ [current]))"

definition mergeRegions ::
  "DirtyRegion list \<Rightarrow> DirtyRectManager \<Rightarrow> DirtyRegion list \<times> DirtyRectManager"
where
  "mergeRegions regions m =
     (if length regions = 0 then ([], m)
      else if length regions = 1 then (regions, m)
      else if 10 < length regions then ([], m\<lparr>fullRedrawNeeded := True\<rparr>)
      else
        (case sortByX regions of
           current # rest \<Rightarrow> (mergeLoop current rest [], m)
         | [] \<Rightarrow> ([], m)))"

definition getDirtyRegions :: "DirtyRectManager \<Rightarrow> DirtyRegion list \<times> DirtyRectManager" where
  "getDirtyRegions m =
     (if fullRedrawNeeded m then ([], m) else mergeRegions (dirtyRegions m) m)"

definition isElementInDirtyRegion :: "WhiteboardElement \<Rightarrow> DirtyRectManager \<Rightarrow> bool" where
  "isElementInDirtyRegion element m =
     (if fullRedrawNeeded m then True
      else
        (let bounds = getElementBounds element
         in list_ex
              (\<lambda>region.
                 boundsIntersect
                   (minX bounds) (minY bounds)
                   (maxX bounds - minX bounds) (maxY bounds - minY bounds)
                   (x region) (y region) (width region) (height region))
              (dirtyRegions m)))"

definition clear :: "DirtyRectManager \<Rightarrow> DirtyRectManager" where
  "clear m = m\<lparr>dirtyRegions := [], isDirty := False, fullRedrawNeeded := False\<rparr>"

section \<open>Element factory (\<open>utils/element-factory.ts\<close>)\<close>

text \<open>
  \<open>nanoid()\<close> and \<open>Date.now()\<close> are read from outside the program: the factory takes
  the new id and the time as arguments. The optional \<open>style\<close> argument is left at its
  default \<open>{}\<close>, so that the style of the element is \<open>DEFAULT_STYLE\<close>.
\<close>

definition DEFAULT_STYLE :: ElementStyle where
  "DEFAULT_STYLE =
     \<lparr>strokeColor = ''#000000'', fillColor = ''transparent'',
      strokeWidth = Fin 2, opacity = Fin 1,
      roughness = Some (Fin 0), fillStyle = Some Solid\<rparr>"

definition createRectangle ::
  "string \<Rightarrow> number \<Rightarrow> number \<Rightarrow> number \<Rightarrow> number \<Rightarrow> number \<Rightarrow> WhiteboardElement"
where
  "createRectangle newId now rx ry rw rh =
     \<lparr>x = rx, y = ry, width = rw, height = rh, rotation = Fin 0,
      id_el = newId, type_el = Rectangle, zIndex = now, style = DEFAULT_STYLE,
      locked = False, isDeleted = False,
      startX = None, startY = None, endX = None, endY = None, arrowHeadSize = None,
      points = None, pressures = None, text_el = None, fontSize = None,
      fontFamily = None, textAlign = None, verticalAlign = None\<rparr>"

definition createLine ::
  "string \<Rightarrow> number \<Rightarrow> number \<Rightarrow> number \<Rightarrow> number \<Rightarrow> number \<Rightarrow> WhiteboardElement"
where
  "createLine newId now sx sy ex ey =
     \<lparr>x = Math_min sx ex, y = Math_min sy ey,
      width = \<bar>ex - sx\<bar>, height = \<bar>ey - sy\<bar>, rotation = Fin 0,
      id_el = newId, type_el = Line, zIndex = now, style = DEFAULT_STYLE,
      locked = False, isDeleted = False,
      startX = Some sx, startY = Some sy, endX = Some ex, endY = Some ey,
      arrowHeadSize = None,
      points = None, pressures = None, text_el = None, fontSize = None,
      fontFamily = None, textAlign = None, verticalAlign = None\<rparr>"

section \<open>Sequences of store actions\<close>






section \<open>Example scenes\<close>

text \<open>Concrete elements, scenes and gestures, on which the theorems below are run.\<close>

definition rectA :: WhiteboardElement where
  "rectA = createRectangle ''a'' (Fin 1) (Fin 0) (Fin 0) (Fin 100) (Fin 100)"

definition rectB :: WhiteboardElement where
  "rectB = createRectangle ''b'' (Fin 2) (Fin 50) (Fin 50) (Fin 20) (Fin 20)"

text \<open>Two rectangles, both selected, the pointer hovering over the first.\<close>

definition exampleState :: AppState where
  "exampleState =
     setHoveredElement (Some ''a'')
       (selectElements [''a'', ''b''] (addElement rectB (addElement rectA initialState)))"


text \<open>
  A horizontal line, with the end points of \<open>line2\<close> of the sample shapes
  (\<open>createLine(100, 600, 300, 600, ...)\<close>): its bounding box has height \<open>0\<close>.
  \<open>lineState\<close> is the scene with the line selected.
\<close>

definition line2 :: WhiteboardElement where
  "line2 = createLine ''line2'' (Fin 0) (Fin 100) (Fin 600) (Fin 300) (Fin 600)"

definition lineState :: AppState where
  "lineState = selectElement ''line2'' (addElement line2 initialState)"

definition canvasAtOrigin :: HTMLCanvasElement where
  "canvasAtOrigin = \<lparr>rect_left = Fin 0, rect_top = Fin 0\<rparr>"

text \<open>
  The pointer goes down on the top-center handle of the selected line, at \<open>(200, 600)\<close>,
  and moves five pixels to the right with shift held.
\<close>

definition lineResizeGesture :: "SelectTool \<times> AppState" where
  "lineResizeGesture =
     onPointerMove \<lparr>clientX = Fin 205, clientY = Fin 600, shiftKey = True\<rparr>
       canvasAtOrigin DEFAULT_VIEWPORT
       (onPointerDown \<lparr>clientX = Fin 200, clientY = Fin 600, shiftKey = False\<rparr>
          canvasAtOrigin DEFAULT_VIEWPORT
          (new_SelectTool None, lineState))"

text \<open>A move gesture on element \<open>a\<close>, begun at \<open>(10, 10)\<close>.\<close>

definition movingTool :: SelectTool where
  "movingTool =
     (new_SelectTool None)
       \<lparr>transformMode := Some Move,
        dragStartPoint := Some \<lparr>x = Fin 10, y = Fin 10\<rparr>,
        elementStartBounds := [''a'' \<mapsto> snapshotBounds rectA]\<rparr>"

text \<open>The scene after \<open>a\<close> was selected and then deleted from the store.\<close>

definition deletedState :: AppState where
  "deletedState = deleteElement ''a'' (selectElement ''a'' (addElement rectA initialState))"

text \<open>
  A move gesture on the elements \<open>a\<close> and \<open>b\<close> together, begun at \<open>(10, 10)\<close>, and
  the scene after \<open>a\<close> was deleted from the store during the gesture: \<open>b\<close> is still
  selected and present.
\<close>

definition movingBothTool :: SelectTool where
  "movingBothTool =
     (new_SelectTool None)
       \<lparr>transformMode := Some Move,
        dragStartPoint := Some \<lparr>x = Fin 10, y = Fin 10\<rparr>,
        elementStartBounds :=
          [''a'' \<mapsto> snapshotBounds rectA, ''b'' \<mapsto> snapshotBounds rectB]\<rparr>"

definition oneDeletedState :: AppState where
  "oneDeletedState = deleteElement ''a'' exampleState"

definition moveEvent :: PointerEvent where
  "moveEvent = \<lparr>clientX = Fin 30, clientY = Fin 40, shiftKey = False\<rparr>"

text \<open>
  A drag on the empty canvas: the pointer goes down at \<open>(10, 20)\<close> and moves to
  \<open>(3, 40)\<close>.
\<close>

definition draggingTool :: SelectTool where
  "draggingTool =
     fst (onPointerMove \<lparr>clientX = Fin 3, clientY = Fin 40, shiftKey = False\<rparr>
            canvasAtOrigin DEFAULT_VIEWPORT
            (onPointerDown \<lparr>clientX = Fin 10, clientY = Fin 20, shiftKey = False\<rparr>
               canvasAtOrigin DEFAULT_VIEWPORT
               (new_SelectTool None, initialState)))"

text \<open>Eleven regions marked dirty after a frame was drawn.\<close>

definition elevenRegions :: DirtyRectManager where
  "elevenRegions =
     fold (\<lambda>k. markRegionDirty (Fin (real k)) (Fin 0) (Fin 5) (Fin 5)) [0 ..< 11]
       (clear new_DirtyRectManager)"

section \<open>Numbers and sets\<close>

lemma Fin_minus [simp]: "Fin a - Fin b = Fin (a - b)"
  by (simp add: minus_number_def)

lemma new_Set_nil [simp]: "new_Set [] = []"
  by (simp add: new_Set_def)

lemma set_foldl_Set_add: "set (foldl Set_add acc ids) = set acc \<union> set ids"
  by (induction ids arbitrary: acc) (auto simp: Set_add_def)

lemma set_new_Set [simp]: "set (new_Set ids) = set ids"
  by (simp add: new_Set_def set_foldl_Set_add)

lemma fold_delete_apply:
  "fold (\<lambda>i m. m(i := None)) ids m k = (if k \<in> set ids then None else m k)"
  by (induction ids arbitrary: m) auto


lemma exampleState_elements:
  "elements exampleState = [''a'' \<mapsto> rectA, ''b'' \<mapsto> rectB]"
  "elementOrder exampleState = [''a'', ''b'']"
  "selectedElementIds exampleState = [''a'', ''b'']"
  "hoveredElementId exampleState = Some ''a''"
  by (simp_all add: exampleState_def setHoveredElement_def selectElements_def addElement_def
      initialState_def rectA_def rectB_def createRectangle_def new_Set_def Set_add_def Let_def)

section \<open>Deleting and updating elements\<close>

text \<open>
  Claim C1, as the store has it: deleting an id, by \<open>deleteElement\<close> or by
  \<open>deleteElements\<close> with the id in the list, removes the id from the element map, from
  the z-order list and from the selection set, and leaves the hovered-element id as it
  was.
\<close>

theorem delete_removes_id:
  assumes "eid \<in> set ids"
  shows "elements (deleteElement eid state) eid = None \<and>
         eid \<notin> set (elementOrder (deleteElement eid state)) \<and>
         eid \<notin> set (selectedElementIds (deleteElement eid state)) \<and>
         hoveredElementId (deleteElement eid state) = hoveredElementId state \<and>
         elements (deleteElements ids state) eid = None \<and>
         eid \<notin> set (elementOrder (deleteElements ids state)) \<and>
         eid \<notin> set (selectedElementIds (deleteElements ids state)) \<and>
         hoveredElementId (deleteElements ids state) = hoveredElementId state"
  using assms
  by (simp add: deleteElement_def deleteElements_def Let_def fold_delete_apply)

theorem delete_removes_id_witness:
  "''a'' \<in> set [''a'', ''b''] \<and>
   elements (deleteElement ''a'' exampleState) ''a'' = None \<and>
   ''a'' \<notin> set (elementOrder (deleteElement ''a'' exampleState)) \<and>
   ''a'' \<notin> set (selectedElementIds (deleteElement ''a'' exampleState)) \<and>
   hoveredElementId (deleteElement ''a'' exampleState) = Some ''a'' \<and>
   elements (deleteElements [''a'', ''b''] exampleState) ''a'' = None \<and>
   ''a'' \<notin> set (elementOrder (deleteElements [''a'', ''b''] exampleState)) \<and>
   ''a'' \<notin> set (selectedElementIds (deleteElements [''a'', ''b''] exampleState)) \<and>
   hoveredElementId (deleteElements [''a'', ''b''] exampleState) = Some ''a''"
  using delete_removes_id [of "''a''" "[''a'', ''b'']" exampleState]
  by (simp add: exampleState_elements)

text \<open>
  The hovered element is \<open>a\<close>; after \<open>a\<close> is deleted, by either action, the hover id is
  still \<open>a\<close>.
\<close>

theorem delete_keeps_hover_counterexample:
  "hoveredElementId exampleState = Some ''a'' \<and>
   hoveredElementId (deleteElement ''a'' exampleState) = Some ''a'' \<and>
   hoveredElementId (deleteElements [''a''] exampleState) = Some ''a''"
  by (simp add: exampleState_elements deleteElement_def deleteElements_def Let_def)

text \<open>
  Claim C8: \<open>updateElement\<close> with an id that is not a key of the element map returns
  the state it was given, whatever the updates: every field of the store is as before.
\<close>

theorem updateElement_missing_noop:
  "elements state eid = None \<Longrightarrow> updateElement eid updates state = state"
  by (simp add: updateElement_def)

theorem updateElement_missing_noop_witness:
  "elements exampleState ''zz'' = None \<and>
   updateElement ''zz'' (no_updates\<lparr>upd_x := Some (Fin 7)\<rparr>) exampleState = exampleState"
proof -
  have absent: "elements exampleState ''zz'' = None"
    by (simp add: exampleState_elements)
  from updateElement_missing_noop [OF absent] absent show ?thesis
    by simp
qed

section \<open>Z-order integrity\<close>





















section \<open>Screen and world coordinates\<close>

text \<open>
  Claim C5: for every viewport with finite pan and finite nonzero zoom and every finite
  screen point, \<open>worldToScreen\<close> of \<open>screenToWorld\<close> of the point is the point, exactly,
  the arithmetic being that of the reals.
\<close>

theorem screen_world_round_trip:
  assumes "zoom vp = Fin z" "panX vp = Fin px" "panY vp = Fin py" "z \<noteq> 0"
  shows "worldToScreen
           (x (screenToWorld (Fin sx) (Fin sy) vp))
           (y (screenToWorld (Fin sx) (Fin sy) vp)) vp
         = \<lparr>x = Fin sx, y = Fin sy\<rparr>"
  using assms by (simp add: screenToWorld_def worldToScreen_def)

theorem screen_world_round_trip_witness:
  "worldToScreen
     (x (screenToWorld (Fin 100) (Fin 50) \<lparr>zoom = Fin 2, panX = Fin 30, panY = Fin (- 10)\<rparr>))
     (y (screenToWorld (Fin 100) (Fin 50) \<lparr>zoom = Fin 2, panX = Fin 30, panY = Fin (- 10)\<rparr>))
     \<lparr>zoom = Fin 2, panX = Fin 30, panY = Fin (- 10)\<rparr>
   = \<lparr>x = Fin 100, y = Fin 50\<rparr>"
  using screen_world_round_trip
    [of "\<lparr>zoom = Fin 2, panX = Fin 30, panY = Fin (- 10)\<rparr>" 2 30 "- 10" 100 50]
  by simp

section \<open>Hit test at the center\<close>

text \<open>
  Claim C6: for every element with finite position, width \<open>> 0\<close>, height \<open>> 0\<close> and any
  finite rotation, the center \<open>(x + width/2, y + height/2)\<close> of its unrotated bounding
  box is inside the element by \<open>isPointInRectangle\<close>, with the default padding \<open>0\<close> and
  with every padding \<open>\<ge> 0\<close>.
\<close>

theorem center_is_inside:
  assumes "x element = Fin ex" "y element = Fin ey"
      and "width element = Fin w" "height element = Fin h"
      and "rotation element = Fin r"
      and "0 < w" "0 < h" "0 \<le> p"
  shows "isPointInRectangle
           \<lparr>x = x element + width element / Fin 2, y = y element + height element / Fin 2\<rparr>
           element (Fin p)"
  using assms by (simp add: isPointInRectangle_def Let_def)

theorem center_is_inside_witness:
  "isPointInRectangle \<lparr>x = Fin 50, y = Fin 50\<rparr> (rectA\<lparr>rotation := Fin (pi / 2)\<rparr>) (Fin 0) \<and>
   isPointInRectangle \<lparr>x = Fin 50, y = Fin 50\<rparr> rectA (Fin 0)"
  using center_is_inside [of "rectA\<lparr>rotation := Fin (pi / 2)\<rparr>" 0 0 100 100 "pi / 2" 0]
    center_is_inside [of rectA 0 0 100 100 0 0]
  by (simp add: rectA_def createRectangle_def)

section \<open>Resizing\<close>

text \<open>
  Claim C7: \<open>performResize\<close> with handle \<open>se\<close>, \<open>dx = 50\<close>, \<open>dy = 30\<close>, starting bounds
  \<open>(0, 0, 100, 100)\<close> and shift held stores width \<open>150\<close> and height \<open>150\<close>, with \<open>x\<close>
  and \<open>y\<close> at \<open>0\<close>, in the element of the given id.
\<close>

theorem resize_se_shift_scenario:
  assumes "elements state eid = Some element"
  shows "map_option (\<lambda>e. (x e, y e, width e, height e))
           (elements
              (performResize eid \<lparr>x = Fin 0, y = Fin 0, width = Fin 100, height = Fin 100\<rparr>
                 (Fin 50) (Fin 30) (Some H_se) True state)
              eid)
         = Some (Fin 0, Fin 0, Fin 150, Fin 150)"
  using assms
  by (simp add: performResize_def updateElement_def applyUpdates_def no_updates_def
      spread_def Let_def)

theorem resize_se_shift_scenario_witness:
  "elements exampleState ''a'' = Some rectA \<and>
   map_option (\<lambda>e. (x e, y e, width e, height e))
     (elements
        (performResize ''a'' \<lparr>x = Fin 0, y = Fin 0, width = Fin 100, height = Fin 100\<rparr>
           (Fin 50) (Fin 30) (Some H_se) True exampleState)
        ''a'')
   = Some (Fin 0, Fin 0, Fin 150, Fin 150)"
proof -
  have present: "elements exampleState ''a'' = Some rectA"
    by (simp add: exampleState_elements)
  from resize_se_shift_scenario [OF present] present show ?thesis
    by simp
qed

text \<open>
  The minimum size holds for every handle, every finite starting bounds and every finite
  drag delta, as long as the starting height is not \<open>0\<close> when shift is held.
\<close>

lemma performResize_min_size:
  assumes "elements state eid = Some element"
      and "x sb = Fin bx" "y sb = Fin by" "width sb = Fin w" "height sb = Fin h"
      and "maintainAspectRatio \<longrightarrow> h \<noteq> 0"
  shows "\<exists>e. elements (performResize eid sb (Fin dx) (Fin dy) handle maintainAspectRatio state) eid
               = Some e \<and> Fin 1 \<le> width e \<and> Fin 1 \<le> height e"
  using assms
  by (cases handle)
     (auto simp: performResize_def updateElement_def applyUpdates_def no_updates_def
        spread_def Let_def split: HandleType.splits)

lemma sqrt_10000: "sqrt 10000 = 100"
  by (rule real_sqrt_unique) simp_all

lemma line2_fields:
  "x line2 = Fin 100" "y line2 = Fin 600" "width line2 = Fin 200" "height line2 = Fin 0"
  "rotation line2 = Fin 0"
  by (simp_all add: line2_def createLine_def)

lemma lineState_fields:
  "elements lineState = [''line2'' \<mapsto> line2]"
  "elementOrder lineState = [''line2'']"
  "selectedElementIds lineState = [''line2'']"
  by (simp_all add: lineState_def selectElement_def addElement_def initialState_def
      line2_def createLine_def new_Set_def Set_add_def Let_def)

lemma line2_handle: "findHandleAtPoint \<lparr>x = Fin 200, y = Fin 600\<rparr> line2 (Fin 8) = Some H_n"
  by (simp add: findHandleAtPoint_def getHandlePositions_def line2_fields Let_def sqrt_10000)

lemma line2_pointer_down:
  "onPointerDown \<lparr>clientX = Fin 200, clientY = Fin 600, shiftKey = False\<rparr>
     canvasAtOrigin DEFAULT_VIEWPORT (new_SelectTool None, lineState)
   = ((new_SelectTool None)
        \<lparr>activeHandle := Some H_n,
         dragStartPoint := Some \<lparr>x = Fin 200, y = Fin 600\<rparr>,
         transformMode := Some Resize,
         elementStartBounds := [''line2'' \<mapsto> snapshotBounds line2]\<rparr>,
      lineState)"
  by (simp add: onPointerDown_def canvasAtOrigin_def DEFAULT_VIEWPORT_def screenToWorld_def
      lineState_fields line2_handle Let_def new_SelectTool_def)

lemma lineResizeGesture_store:
  "snd lineResizeGesture =
     performResize ''line2'' (snapshotBounds line2) (Fin 5) (Fin 0) (Some H_n) True lineState"
proof -
  have down: "lineResizeGesture =
          onPointerMove \<lparr>clientX = Fin 205, clientY = Fin 600, shiftKey = True\<rparr>
            canvasAtOrigin DEFAULT_VIEWPORT
            ((new_SelectTool None)
               \<lparr>activeHandle := Some H_n,
                dragStartPoint := Some \<lparr>x = Fin 200, y = Fin 600\<rparr>,
                transformMode := Some Resize,
                elementStartBounds := [''line2'' \<mapsto> snapshotBounds line2]\<rparr>,
             lineState)"
    by (simp only: lineResizeGesture_def line2_pointer_down)
  show ?thesis
    unfolding down
    by (simp add: onPointerMove_def canvasAtOrigin_def DEFAULT_VIEWPORT_def screenToWorld_def
        lineState_fields Let_def)
qed

text \<open>
  Claim C3 at a starting height of \<open>0\<close>: the horizontal line \<open>line2\<close> has the bounds
  \<open>(100, 600, 200, 0)\<close>; resized by its top-center handle with \<open>dx = 5\<close>, \<open>dy = 0\<close> and
  shift held, its stored width is \<open>NaN\<close>, which is not \<open>\<ge> 1\<close>. The same happens when
  the resize comes from the pointer handlers.
\<close>

theorem performResize_zero_height_gives_NaN:
  "height (snapshotBounds line2) = Fin 0 \<and>
   map_option width
     (elements
        (performResize ''line2'' (snapshotBounds line2) (Fin 5) (Fin 0) (Some H_n) True lineState)
        ''line2'')
   = Some NaN \<and>
   map_option width (elements (snd lineResizeGesture) ''line2'') = Some NaN \<and>
   \<not> Fin 1 \<le> (NaN :: number)"
  by (simp add: lineResizeGesture_store lineState_fields performResize_def snapshotBounds_def
      line2_fields or_zero_def updateElement_def applyUpdates_def no_updates_def spread_def
      Let_def)

section \<open>Gestures\<close>

lemma updateElement_keeps_absent:
  "elements state k = None \<Longrightarrow> elements (updateElement eid u state) k = None"
  by (auto simp: updateElement_def Let_def split: option.splits)

lemma updateElement_other_fields:
  "(updateElement eid u state)\<lparr>elements := m\<rparr> = state\<lparr>elements := m\<rparr>"
  by (simp add: updateElement_def Let_def split: option.splits)

lemma performResize_keeps_absent:
  "elements state k = None \<Longrightarrow>
   elements (performResize eid sb dx dy handle shift state) k = None"
  unfolding performResize_def
  by (simp only: Let_def case_prod_beta updateElement_keeps_absent)

lemma performResize_other_fields:
  "(performResize eid sb dx dy handle shift state)\<lparr>elements := m\<rparr> = state\<lparr>elements := m\<rparr>"
  unfolding performResize_def
  by (simp only: Let_def case_prod_beta updateElement_other_fields)

lemma fold_updateElement_keeps_absent:
  "elements state k = None \<Longrightarrow>
   elements
     (fold (\<lambda>i st. case bounds i of
                     Some startBounds \<Rightarrow> updateElement i (f startBounds) st
                   | None \<Rightarrow> st)
        ids state) k = None"
  by (induction ids arbitrary: state)
     (auto simp: updateElement_keeps_absent split: option.splits)

lemma fold_updateElement_other_fields:
  "(fold (\<lambda>i st. case bounds i of
                   Some startBounds \<Rightarrow> updateElement i (f startBounds) st
                 | None \<Rightarrow> st)
      ids state)\<lparr>elements := m\<rparr> = state\<lparr>elements := m\<rparr>"
  by (induction ids arbitrary: state)
     (auto simp: updateElement_other_fields split: option.splits)

lemma onPointerUp_transform:
  assumes "transformMode tool = Some Move \<or> transformMode tool = Some Resize \<or>
           transformMode tool = Some Rotate"
  shows "onPointerUp event canvas vp (tool, state) = (reset tool, state)"
  using assms by (auto simp: onPointerUp_def reset_def)

lemma onPointerMove_move:
  assumes "transformMode tool = Some Move"
      and "dragStartPoint tool = Some start"
  shows "fst (onPointerMove event canvas vp (tool, state)) = tool"
    and "(snd (onPointerMove event canvas vp (tool, state)))\<lparr>elements := m\<rparr>
           = state\<lparr>elements := m\<rparr>"
    and "elements state k = None \<Longrightarrow>
         elements (snd (onPointerMove event canvas vp (tool, state))) k = None"
  using assms
  by (simp_all add: onPointerMove_def Let_def fold_updateElement_keeps_absent
      fold_updateElement_other_fields)

lemma onPointerMove_resize:
  assumes "transformMode tool = Some Resize"
      and "dragStartPoint tool = Some start"
  shows "fst (onPointerMove event canvas vp (tool, state)) = tool"
    and "(snd (onPointerMove event canvas vp (tool, state)))\<lparr>elements := m\<rparr>
           = state\<lparr>elements := m\<rparr>"
    and "elements state k = None \<Longrightarrow>
         elements (snd (onPointerMove event canvas vp (tool, state))) k = None"
  using assms
  by (simp_all add: onPointerMove_def Let_def performResize_keeps_absent
      performResize_other_fields split: list.splits option.splits)

lemma onPointerMove_rotate:
  assumes "transformMode tool = Some Rotate"
      and "dragStartPoint tool = Some start"
  shows "fst (onPointerMove event canvas vp (tool, state)) = tool"
    and "(snd (onPointerMove event canvas vp (tool, state)))\<lparr>elements := m\<rparr>
           = state\<lparr>elements := m\<rparr>"
    and "elements state k = None \<Longrightarrow>
         elements (snd (onPointerMove event canvas vp (tool, state))) k = None"
  using assms
  by (simp_all add: onPointerMove_def Let_def updateElement_keeps_absent
      updateElement_other_fields split: list.splits option.splits)

lemma movingTool_fields:
  "transformMode movingTool = Some Move"
  "dragStartPoint movingTool = Some \<lparr>x = Fin 10, y = Fin 10\<rparr>"
  "elementStartBounds movingTool ''a'' = Some (snapshotBounds rectA)"
  by (simp_all add: movingTool_def)

lemma deletedState_fields:
  "selectedElementIds deletedState = []"
  "elements deletedState ''a'' = None"
  by (simp_all add: deletedState_def deleteElement_def selectElement_def addElement_def
      initialState_def rectA_def createRectangle_def new_Set_def Set_add_def Let_def)

lemma movingBothTool_fields:
  "transformMode movingBothTool = Some Move"
  "dragStartPoint movingBothTool = Some \<lparr>x = Fin 10, y = Fin 10\<rparr>"
  "elementStartBounds movingBothTool ''a'' = Some (snapshotBounds rectA)"
  "elementStartBounds movingBothTool ''b'' = Some (snapshotBounds rectB)"
  by (simp_all add: movingBothTool_def)

lemma oneDeletedState_fields:
  "selectedElementIds oneDeletedState = [''b'']"
  "elements oneDeletedState ''a'' = None"
  "elements oneDeletedState ''b'' = Some rectB"
  by (simp_all add: oneDeletedState_def deleteElement_def exampleState_elements
      new_Set_def Set_add_def Let_def)

text \<open>
  Claim C4, as the tool has it: in a move, resize or rotate gesture, with an element id
  that is no longer a key of the element map, \<open>onPointerMove\<close> does not end the
  gesture: the tool after the call is the tool before it, with its mode and its drag
  snapshot; the call does not put the missing id back into the element map and changes
  no other field of the store. \<open>onPointerUp\<close> ends the gesture: the store is as
  before and the tool is idle, its mode, handle and drag points \<open>null\<close> and the drag
  snapshot empty.
\<close>

theorem gesture_on_missing_element:
  assumes "transformMode tool = Some Move \<or> transformMode tool = Some Resize \<or>
           transformMode tool = Some Rotate"
      and "dragStartPoint tool = Some start"
      and "elements state eid = None"
  shows "fst (onPointerMove event canvas vp (tool, state)) = tool \<and>
         elements (snd (onPointerMove event canvas vp (tool, state))) eid = None \<and>
         (snd (onPointerMove event canvas vp (tool, state)))\<lparr>elements := elements state\<rparr>
           = state \<and>
         onPointerUp event canvas vp (tool, state) = (reset tool, state) \<and>
         transformMode (reset tool) = None \<and> activeHandle (reset tool) = None \<and>
         dragStartPoint (reset tool) = None \<and> dragCurrentPoint (reset tool) = None \<and>
         elementStartBounds (reset tool) = Map.empty"
proof -
  let ?after = "onPointerMove event canvas vp (tool, state)"
  have up: "onPointerUp event canvas vp (tool, state) = (reset tool, state)"
    using assms(1) by (rule onPointerUp_transform)
  from assms(1)
  have move: "fst ?after = tool \<and>
              (snd ?after)\<lparr>elements := elements state\<rparr> = state\<lparr>elements := elements state\<rparr> \<and>
              elements (snd ?after) eid = None"
  proof (elim disjE)
    assume mode: "transformMode tool = Some Move"
    from onPointerMove_move(1) [OF mode assms(2)] onPointerMove_move(2) [OF mode assms(2)]
      onPointerMove_move(3) [OF mode assms(2) assms(3)]
    show ?thesis by simp
  next
    assume mode: "transformMode tool = Some Resize"
    from onPointerMove_resize(1) [OF mode assms(2)] onPointerMove_resize(2) [OF mode assms(2)]
      onPointerMove_resize(3) [OF mode assms(2) assms(3)]
    show ?thesis by simp
  next
    assume mode: "transformMode tool = Some Rotate"
    from onPointerMove_rotate(1) [OF mode assms(2)] onPointerMove_rotate(2) [OF mode assms(2)]
      onPointerMove_rotate(3) [OF mode assms(2) assms(3)]
    show ?thesis by simp
  qed
  then have same_tool: "fst ?after = tool"
    and rest: "(snd ?after)\<lparr>elements := elements state\<rparr> = state"
    and still_absent: "elements (snd ?after) eid = None"
    by simp_all
  from up same_tool rest still_absent show ?thesis
    by (simp add: reset_def)
qed

text \<open>
  The elements \<open>a\<close> and \<open>b\<close> are moved together and \<open>a\<close> is deleted during the gesture.
  The next \<open>onPointerMove\<close> keeps the gesture and moves \<open>b\<close>, from \<open>(50, 50)\<close> to
  \<open>(70, 80)\<close>; \<open>a\<close> stays deleted.
\<close>

theorem gesture_on_missing_element_witness:
  "transformMode movingBothTool = Some Move \<and>
   dragStartPoint movingBothTool = Some \<lparr>x = Fin 10, y = Fin 10\<rparr> \<and>
   elements oneDeletedState ''a'' = None \<and>
   fst (onPointerMove moveEvent canvasAtOrigin DEFAULT_VIEWPORT (movingBothTool, oneDeletedState))
     = movingBothTool \<and>
   elements
     (snd (onPointerMove moveEvent canvasAtOrigin DEFAULT_VIEWPORT
             (movingBothTool, oneDeletedState))) ''a'' = None \<and>
   map_option (\<lambda>e. (x e, y e))
     (elements
        (snd (onPointerMove moveEvent canvasAtOrigin DEFAULT_VIEWPORT
                (movingBothTool, oneDeletedState))) ''b'') = Some (Fin 70, Fin 80) \<and>
   onPointerUp moveEvent canvasAtOrigin DEFAULT_VIEWPORT (movingBothTool, oneDeletedState)
     = (reset movingBothTool, oneDeletedState) \<and>
   transformMode (reset movingBothTool) = None"
proof -
  have mode: "transformMode movingBothTool = Some Move \<or>
              transformMode movingBothTool = Some Resize \<or>
              transformMode movingBothTool = Some Rotate"
    by (simp add: movingBothTool_fields)
  have moved:
    "map_option (\<lambda>e. (x e, y e))
       (elements
          (snd (onPointerMove moveEvent canvasAtOrigin DEFAULT_VIEWPORT
                  (movingBothTool, oneDeletedState))) ''b'') = Some (Fin 70, Fin 80)"
    by (simp add: onPointerMove_def movingBothTool_fields oneDeletedState_fields
        moveEvent_def canvasAtOrigin_def DEFAULT_VIEWPORT_def screenToWorld_def
        updateElement_def applyUpdates_def no_updates_def spread_def snapshotBounds_def
        rectB_def createRectangle_def or_zero_def Let_def)
  from gesture_on_missing_element
         [OF mode movingBothTool_fields(2) oneDeletedState_fields(2),
          of moveEvent canvasAtOrigin DEFAULT_VIEWPORT]
       moved
  show ?thesis
    by (simp add: movingBothTool_fields oneDeletedState_fields)
qed

text \<open>
  Element \<open>a\<close> is deleted from the store while it is being moved. The next
  \<open>onPointerMove\<close> leaves the tool in its move gesture, with the snapshot of \<open>a\<close>.
\<close>

theorem pointer_move_keeps_gesture_counterexample:
  "transformMode movingTool = Some Move \<and>
   elements deletedState ''a'' = None \<and>
   transformMode (fst (onPointerMove moveEvent canvasAtOrigin DEFAULT_VIEWPORT
                         (movingTool, deletedState))) = Some Move \<and>
   elementStartBounds (fst (onPointerMove moveEvent canvasAtOrigin DEFAULT_VIEWPORT
                              (movingTool, deletedState))) ''a''
     = Some (snapshotBounds rectA)"
  by (simp add: movingTool_fields deletedState_fields onPointerMove_def Let_def)

lemma draggingTool_fields:
  "transformMode draggingTool = Some DragSelect"
  "dragStartPoint draggingTool = Some \<lparr>x = Fin 10, y = Fin 20\<rparr>"
  "dragCurrentPoint draggingTool = Some \<lparr>x = Fin 3, y = Fin 40\<rparr>"
  by (simp_all add: draggingTool_def onPointerMove_def onPointerDown_def canvasAtOrigin_def
      DEFAULT_VIEWPORT_def new_SelectTool_def initialState_def screenToWorld_def
      findElementAtPoint_def clearSelection_def Let_def)

text \<open>
  Claim C10: in drag-select mode, for every finite drag-start point and every finite
  drag-current point, \<open>getDragSelectionBox\<close> returns the rectangle whose \<open>x\<close> and \<open>y\<close>
  are the smaller of the two coordinates and whose width and height are the differences
  of the larger and the smaller, which are \<open>\<ge> 0\<close>; in every other mode it returns
  \<open>null\<close>.
\<close>

theorem drag_selection_box:
  "(transformMode tool = Some DragSelect \<and>
    dragStartPoint tool = Some \<lparr>x = Fin ax, y = Fin ay\<rparr> \<and>
    dragCurrentPoint tool = Some \<lparr>x = Fin bx, y = Fin by\<rparr> \<longrightarrow>
      getDragSelectionBox tool =
        Some \<lparr>x = Fin (min ax bx), y = Fin (min ay by),
              width = Fin (max ax bx - min ax bx), height = Fin (max ay by - min ay by)\<rparr> \<and>
      0 \<le> max ax bx - min ax bx \<and> 0 \<le> max ay by - min ay by) \<and>
   (transformMode tool \<noteq> Some DragSelect \<longrightarrow> getDragSelectionBox tool = None)"
  by (auto simp: getDragSelectionBox_def Let_def min_def max_def
      split: option.splits TransformMode.splits)

theorem drag_selection_box_witness:
  "transformMode draggingTool = Some DragSelect \<and>
   dragStartPoint draggingTool = Some \<lparr>x = Fin 10, y = Fin 20\<rparr> \<and>
   dragCurrentPoint draggingTool = Some \<lparr>x = Fin 3, y = Fin 40\<rparr> \<and>
   getDragSelectionBox draggingTool =
     Some \<lparr>x = Fin 3, y = Fin 20, width = Fin 7, height = Fin 20\<rparr> \<and>
   transformMode (new_SelectTool None) = None \<and>
   getDragSelectionBox (new_SelectTool None) = None"
  using drag_selection_box [of draggingTool 10 20 3 40]
    drag_selection_box [of "new_SelectTool None" 0 0 0 0]
  by (simp add: draggingTool_fields new_SelectTool_def)

section \<open>Dirty rectangles\<close>

lemma elevenRegions_regions:
  "dirtyRegions elevenRegions =
     map (\<lambda>k. \<lparr>x = Fin (real k), y = Fin 0, width = Fin 5, height = Fin 5\<rparr>) [0 ..< 11]"
  by (simp add: elevenRegions_def markRegionDirty_def clear_def new_DirtyRectManager_def upt_rec)

text \<open>
  Claim C9: when more than ten distinct dirty rectangles have accumulated in the
  manager, \<open>getDirtyRegions\<close> returns the empty list and \<open>needsFullRedraw\<close> is true of
  the manager after the call.
\<close>

theorem many_dirty_regions_full_redraw:
  assumes "10 < card (set (dirtyRegions m))"
  shows "fst (getDirtyRegions m) = [] \<and> needsFullRedraw (snd (getDirtyRegions m))"
proof -
  have "card (set (dirtyRegions m)) \<le> length (dirtyRegions m)"
    by (rule card_length)
  with assms have "10 < length (dirtyRegions m)"
    by simp
  then show ?thesis
    by (auto simp: getDirtyRegions_def mergeRegions_def needsFullRedraw_def)
qed

theorem many_dirty_regions_full_redraw_witness:
  "card (set (dirtyRegions elevenRegions)) = 11 \<and>
   needsFullRedraw elevenRegions = False \<and>
   fst (getDirtyRegions elevenRegions) = [] \<and>
   needsFullRedraw (snd (getDirtyRegions elevenRegions)) = True"
proof -
  have eleven: "card (set (dirtyRegions elevenRegions)) = 11"
    by (simp add: elevenRegions_regions upt_rec)
  then have more: "10 < card (set (dirtyRegions elevenRegions))"
    by simp
  have before: "needsFullRedraw elevenRegions = False"
    by (simp add: needsFullRedraw_def elevenRegions_def markRegionDirty_def clear_def
        new_DirtyRectManager_def upt_rec)
  from many_dirty_regions_full_redraw [OF more] eleven before show ?thesis
    by simp
qed

end
